theory Spec2Isabelle
  imports Complex_Main "HOL-Library.Sublist"
begin

section \<open>py-web-miner: the scraper abstraction of \<^verbatim>\<open>py_web_miner/scraping.py\<close>\<close>

text \<open>
  Python strings are modelled as \<^typ>\<open>string\<close>, Python's \<^verbatim>\<open>None\<close> as \<^const>\<open>None\<close>,
  an exception as the left summand of a result, and the attributes of a scraper object as
  the fields of a record that every method takes and returns.
\<close>

subsection \<open>Whitespace collapsing: \<^verbatim>\<open>BaseScraper._process_text\<close>\<close>

definition nl :: char where
  "nl = CHR 0x0A"

text \<open>
  \<^verbatim>\<open>re.sub(pattern="\n{lo,hi}", repl=repl, string=s)\<close> for \<open>lo \<ge> 1\<close>; \<open>hi = None\<close> is the
  open quantifier \<^verbatim>\<open>{lo,}\<close>. The scan goes from left to right. At each position the greedy
  quantifier takes as many newlines as are there, at most \<open>hi\<close>; when at least \<open>lo\<close> are
  there, the match is replaced and the scan goes on behind it, otherwise the character is
  copied and the scan moves one position on.
\<close>

function re_sub_newlines :: "nat \<Rightarrow> nat option \<Rightarrow> string \<Rightarrow> string \<Rightarrow> string" where
  "re_sub_newlines lo hi repl [] = []"
| "re_sub_newlines lo hi repl (c # cs) =
     (let run = length (takeWhile (\<lambda>x. x = nl) (c # cs));
          m = (case hi of None \<Rightarrow> run | Some h \<Rightarrow> min run h)
      in if lo \<le> run \<and> 0 < m
         then repl @ re_sub_newlines lo hi repl (drop m (c # cs))
         else c # re_sub_newlines lo hi repl cs)"
  by pat_completeness auto
termination
  by (relation "measure (\<lambda>(lo, hi, repl, s). length s)") auto

definition process_text :: "string \<Rightarrow> string" where
  "process_text extracted_text =
     (let extracted_text = re_sub_newlines 5 None [nl, nl, nl] extracted_text;
          extracted_text = re_sub_newlines 4 (Some 4) [nl, nl] extracted_text;
          extracted_text = re_sub_newlines 2 (Some 3) [nl] extracted_text
      in extracted_text)"

subsection \<open>Exceptions\<close>

text \<open>
  \<^verbatim>\<open>ValueError\<close> is what the specification calls ConfigurationError,
  \<^verbatim>\<open>AttributeError\<close> its StateError, and \<^verbatim>\<open>requests.HTTPError\<close> (with the status code
  of the response) its HttpError. \<open>RequestException\<close>, \<open>WebDriverException\<close> and
  \<open>FeatureNotFound\<close> stand for whatever the HTTP client, the browser driver and the HTML
  library raise on their own; \<^verbatim>\<open>time.sleep\<close> raises \<^verbatim>\<open>ValueError\<close> or \<^verbatim>\<open>OverflowError\<close>.
\<close>

datatype error =
    ValueError
  | AttributeError
  | HTTPError int
  | RequestException
  | WebDriverException
  | FeatureNotFound
  | OverflowError

subsection \<open>Parsed documents\<close>

text \<open>
  The HTML parser and serialiser (\<^verbatim>\<open>bs4.BeautifulSoup\<close>) are a library, not part of the
  repository. A parsed document is modelled by its tree of tags and strings; the library's
  constructor (markup and parser name to tree) and its \<^verbatim>\<open>prettify\<close> are parameters.
  The constructor raises when the library has no parser of the given name or the parser
  rejects the markup: \<open>BeautifulSoup_raises\<close> is that exception for a markup and a parser
  name, or \<^verbatim>\<open>None\<close> when a tree is built, and \<open>BeautifulSoup\<close> is the tree built.
  The tree queries the scraper uses (\<^verbatim>\<open>find_all\<close>, attribute access \<^verbatim>\<open>tree.body\<close>,
  \<^verbatim>\<open>select\<close> by tag name with \<^verbatim>\<open>decompose\<close>, \<^verbatim>\<open>get_text\<close>, \<^verbatim>\<open>Tag.get\<close>) are
  written out on the tree, in document order.
\<close>

datatype node =
    NavigableString string
  | Tag string "string \<rightharpoonup> string" "node list"

type_synonym soup = "node list"

record bs4 =
  BeautifulSoup :: "string \<Rightarrow> string \<Rightarrow> soup"
  prettify :: "soup \<Rightarrow> string"
  BeautifulSoup_raises :: "string \<Rightarrow> string \<Rightarrow> error option"

fun descendants :: "node \<Rightarrow> node list" where
  "descendants (NavigableString s) = [NavigableString s]"
| "descendants (Tag name attrs contents) =
     Tag name attrs contents # concat (map descendants contents)"

fun is_tag_named :: "string \<Rightarrow> node \<Rightarrow> bool" where
  "is_tag_named name (NavigableString s) = False"
| "is_tag_named name (Tag n attrs contents) = (n = name)"

definition find_all :: "string \<Rightarrow> soup \<Rightarrow> node list" where
  "find_all name tree = filter (is_tag_named name) (concat (map descendants tree))"

text \<open>\<^verbatim>\<open>tree.body\<close> is \<^verbatim>\<open>tree.find("body")\<close>: the first such tag, or \<^verbatim>\<open>None\<close>.\<close>

definition find_tag :: "string \<Rightarrow> soup \<Rightarrow> node option" where
  "find_tag name tree = (case find_all name tree of [] \<Rightarrow> None | t # _ \<Rightarrow> Some t)"

text \<open>
  \<^verbatim>\<open>for tag in element.select(name): tag.decompose()\<close>: every descendant tag of that name
  is removed from the element together with its subtree.
\<close>

fun decompose_all :: "string \<Rightarrow> node \<Rightarrow> node" where
  "decompose_all name (NavigableString s) = NavigableString s"
| "decompose_all name (Tag n attrs contents) =
     Tag n attrs (map (decompose_all name) (filter (\<lambda>c. \<not> is_tag_named name c) contents))"

fun get_text :: "node \<Rightarrow> string" where
  "get_text (NavigableString s) = s"
| "get_text (Tag n attrs contents) = concat (map get_text contents)"

fun tag_get :: "node \<Rightarrow> string \<Rightarrow> string option" where
  "tag_get (NavigableString s) key = None"
| "tag_get (Tag n attrs contents) key = attrs key"

subsection \<open>String operations of Python\<close>

text \<open>\<^verbatim>\<open>s.split(sep)\<close> for a separator of one character.\<close>

fun str_split :: "char \<Rightarrow> string \<Rightarrow> string list" where
  "str_split sep [] = [[]]"
| "str_split sep (c # cs) =
     (if c = sep then [] # str_split sep cs
      else (case str_split sep cs of [] \<Rightarrow> [[c]] | p # ps \<Rightarrow> (c # p) # ps))"

text \<open>\<^verbatim>\<open>sub in s\<close>.\<close>

fun str_contains :: "string \<Rightarrow> string \<Rightarrow> bool" where
  "str_contains sub [] = (sub = [])"
| "str_contains sub (c # cs) = (prefix sub (c # cs) \<or> str_contains sub cs)"

definition startswith :: "string \<Rightarrow> string \<Rightarrow> bool" where
  "startswith s pre = prefix pre s"

text \<open>
  \<^verbatim>\<open>s.lower()\<close> and \<^verbatim>\<open>s.strip()\<close>, on text whose characters are code points below 256:
  the capital letters are \<^verbatim>\<open>A\<close> to \<^verbatim>\<open>Z\<close> and the code points 192 to 222 without 215, and
  the whitespace characters are 9 to 13, 28 to 32, 133 and 160.
\<close>

definition char_lower :: "char \<Rightarrow> char" where
  "char_lower c =
     (let n = (of_char c :: nat)
      in if (65 \<le> n \<and> n \<le> 90) \<or> (192 \<le> n \<and> n \<le> 214) \<or> (216 \<le> n \<and> n \<le> 222)
         then char_of (n + 32) else c)"

definition str_lower :: "string \<Rightarrow> string" where
  "str_lower s = map char_lower s"

definition is_space :: "char \<Rightarrow> bool" where
  "is_space c =
     (let n = (of_char c :: nat)
      in (9 \<le> n \<and> n \<le> 13) \<or> (28 \<le> n \<and> n \<le> 32) \<or> n = 133 \<or> n = 160)"

definition str_strip :: "string \<Rightarrow> string" where
  "str_strip s = rev (dropWhile is_space (rev (dropWhile is_space s)))"

subsection \<open>Identity catalogs and the random source\<close>

text \<open>
  The user-agent catalog is read from a TSV file when the module is loaded; the file is
  not part of the sources, so the two lists are parameters, and so is the type of the
  weights. Python's \<^verbatim>\<open>random\<close> module is a parameter too: each draw takes the state of
  the generator and returns the drawn entry with the next state.
\<close>

record 'w user_agents =
  MOST_COMMON_USER_AGENTS_STRINGS :: "string list"
  MOST_COMMON_USER_AGENTS_WEIGHTS :: "'w list"

record ('r, 'w) random_module =
  choices :: "'r \<Rightarrow> string list \<Rightarrow> 'w list \<Rightarrow> string \<times> 'r"
  choice :: "'r \<Rightarrow> string list \<Rightarrow> string \<times> 'r"

definition MOST_COMMON_SCREEN_RESOLUTIONS :: "string list" where
  "MOST_COMMON_SCREEN_RESOLUTIONS =
     [''1920,1080'', ''1366,768'', ''1536,864'', ''1440,900'', ''1600,900'']"

subsection \<open>\<^verbatim>\<open>BaseScraper\<close>\<close>

record 'd scraper =
  user_agent :: "string option"
  screen_resolution :: "string option"
  random_user_agent_flag :: bool
  random_screen_resolution_flag :: bool
  bs4_parser :: string
  proxy :: "string option"
  web_driver :: "'d option"

text \<open>
  The decorator of every method that needs a started scraper. A session or a browser
  driver object is always true in Python, so \<^verbatim>\<open>not self.web_driver\<close> holds exactly when
  the field is \<^verbatim>\<open>None\<close>.
\<close>

definition check_web_driver_decorator ::
  "(('d, 'z) scraper_scheme \<Rightarrow> (error + 'a) \<times> ('d, 'z) scraper_scheme) \<Rightarrow>
   ('d, 'z) scraper_scheme \<Rightarrow> (error + 'a) \<times> ('d, 'z) scraper_scheme" where
  "check_web_driver_decorator method self =
     (if web_driver self = None then (Inl AttributeError, self) else method self)"

definition refresh_user_agent ::
  "('r, 'w) random_module \<Rightarrow> 'w user_agents \<Rightarrow> ('d, 'z) scraper_scheme \<Rightarrow> 'r \<Rightarrow>
   ('d, 'z) scraper_scheme \<times> 'r" where
  "refresh_user_agent rnd cat self r =
     (let (ua, r') = choices rnd r (MOST_COMMON_USER_AGENTS_STRINGS cat)
                       (MOST_COMMON_USER_AGENTS_WEIGHTS cat)
      in (self\<lparr>user_agent := Some ua\<rparr>, r'))"

definition refresh_screen_resolution ::
  "('r, 'w) random_module \<Rightarrow> ('d, 'z) scraper_scheme \<Rightarrow> 'r \<Rightarrow> ('d, 'z) scraper_scheme \<times> 'r" where
  "refresh_screen_resolution rnd self r =
     (let (res, r') = choice rnd r MOST_COMMON_SCREEN_RESOLUTIONS
      in (self\<lparr>screen_resolution := Some res\<rparr>, r'))"

text \<open>
  \<^verbatim>\<open>BaseScraper.__init__\<close>. The defaults of the source are \<^verbatim>\<open>None\<close> for the two identity
  fields and the proxy, \<^verbatim>\<open>True\<close> for the two flags and \<^verbatim>\<open>"html.parser"\<close>.
\<close>

definition BaseScraper_init ::
  "('r, 'w) random_module \<Rightarrow> 'w user_agents \<Rightarrow> 'r \<Rightarrow>
   string option \<Rightarrow> string option \<Rightarrow> bool \<Rightarrow> bool \<Rightarrow> string \<Rightarrow> string option \<Rightarrow>
   (error + 'd scraper) \<times> 'r" where
  "BaseScraper_init rnd cat r user_agent_arg screen_resolution_arg random_user_agent_flag_arg
       random_screen_resolution_flag_arg bs4_parser_arg proxy_arg =
     (if (case proxy_arg of None \<Rightarrow> False
          | Some p \<Rightarrow> p \<noteq> [] \<and> length (str_split CHR '':'' p) \<noteq> 2)
      then (Inl ValueError, r)
      else
        let self = \<lparr>user_agent = user_agent_arg,
                    screen_resolution = screen_resolution_arg,
                    random_user_agent_flag = random_user_agent_flag_arg,
                    random_screen_resolution_flag = random_screen_resolution_flag_arg,
                    bs4_parser = bs4_parser_arg,
                    proxy = proxy_arg,
                    web_driver = None\<rparr>;
            (self, r) = (if random_user_agent_flag self
                         then refresh_user_agent rnd cat self r else (self, r));
            (self, r) = (if random_screen_resolution_flag self
                         then refresh_screen_resolution rnd self r else (self, r))
        in (Inr (self\<lparr>web_driver := None\<rparr>), r))"

definition format_html :: "bs4 \<Rightarrow> ('d, 'z) scraper_scheme \<Rightarrow> string \<Rightarrow> error + string" where
  "format_html lib self html_body =
     (case BeautifulSoup_raises lib html_body (bs4_parser self) of
        Some e \<Rightarrow> Inl e
      | None \<Rightarrow> Inr (prettify lib (BeautifulSoup lib html_body (bs4_parser self))))"

text \<open>
  \<^verbatim>\<open>extract_text\<close> and \<^verbatim>\<open>extract_links\<close> are written on the tree of a document that the
  library has parsed. Removing descendants of the body does not change which tag is the
  first body of the document, so \<^verbatim>\<open>tree.body\<close> is looked up once.
\<close>

definition extract_text :: "bs4 \<Rightarrow> ('d, 'z) scraper_scheme \<Rightarrow> string \<Rightarrow> string" where
  "extract_text lib self html_body =
     (let tree = BeautifulSoup lib html_body (bs4_parser self)
      in case find_tag ''body'' tree of
           None \<Rightarrow> []
         | Some body \<Rightarrow>
             let body = decompose_all ''script'' body;
                 body = decompose_all ''style'' body
             in process_text (get_text body))"

fun extract_links_loop :: "node list \<Rightarrow> string list \<Rightarrow> string list" where
  "extract_links_loop [] result = result"
| "extract_links_loop (tag # tags) result =
     (case tag_get tag ''href'' of
        None \<Rightarrow> extract_links_loop tags result
      | Some link \<Rightarrow>
          if link \<noteq> [] \<and> startswith link ''http''
          then extract_links_loop tags (result @ [link])
          else extract_links_loop tags result)"

definition extract_links :: "bs4 \<Rightarrow> ('d, 'z) scraper_scheme \<Rightarrow> string \<Rightarrow> string list" where
  "extract_links lib self html_body =
     (let tree = BeautifulSoup lib html_body (bs4_parser self)
      in extract_links_loop (find_all ''a'' tree) [])"

text \<open>
  \<^verbatim>\<open>time.sleep\<close> is a library function and a parameter of both strategies: for a wait it
  gives the exception raised (a negative wait, one too long for the clock of the platform,
  a value that is no number), or \<^verbatim>\<open>None\<close> when the sleep returns. The wait is whatever
  value the caller passes; only \<^verbatim>\<open>time.sleep\<close> reads it.
\<close>

record 't time_module =
  time_sleep :: "'t \<Rightarrow> error option"

subsection \<open>\<^verbatim>\<open>RequestsScraper\<close>\<close>

text \<open>
  The HTTP client (\<^verbatim>\<open>requests\<close>) is a library: a fresh session and the answer of the
  network to a GET are parameters, next to \<^verbatim>\<open>time.sleep\<close>. What the scraper itself reads and writes of a session
  and of a response are fields. \<^verbatim>\<open>Response.raise_for_status\<close> and \<^verbatim>\<open>requests.codes.ok\<close>
  are written as the library documents them: the first raises \<^verbatim>\<open>HTTPError\<close> for a status
  from 400 to 599 and returns otherwise, the second is 200.
\<close>

record session =
  proxies :: "string \<rightharpoonup> string"
  headers :: "string \<rightharpoonup> string"
  cookies :: "string \<rightharpoonup> string"

record response =
  status_code :: int
  resp_text :: string

record ('k, 't) requests_lib = "'t time_module" +
  requests_session :: session
  session_get :: "session \<Rightarrow> string \<Rightarrow> 'k \<Rightarrow> (error + response) \<times> session"

definition codes_ok :: int where
  "codes_ok = 200"

definition raise_for_status :: "response \<Rightarrow> error option" where
  "raise_for_status resp =
     (if 400 \<le> status_code resp \<and> status_code resp < 600
      then Some (HTTPError (status_code resp)) else None)"

definition RequestsScraper_start ::
  "('k, 't) requests_lib \<Rightarrow> session scraper \<Rightarrow> (error + unit) \<times> session scraper" where
  "RequestsScraper_start lib self =
     (let wd = requests_session lib;
          wd = (case proxy self of
                  None \<Rightarrow> wd
                | Some p \<Rightarrow>
                    if p \<noteq> []
                    then wd\<lparr>proxies := [''http'' \<mapsto> ''http://'' @ p, ''https'' \<mapsto> ''https://'' @ p]\<rparr>
                    else wd);
          wd = (case user_agent self of
                  None \<Rightarrow> wd
                | Some ua \<Rightarrow>
                    if ua \<noteq> [] then wd\<lparr>headers := [''User-Agent'' \<mapsto> ua]\<rparr> else wd)
      in (Inr (), self\<lparr>web_driver := Some wd\<rparr>))"

definition RequestsScraper_quit :: "session scraper \<Rightarrow> (error + unit) \<times> session scraper" where
  "RequestsScraper_quit =
     check_web_driver_decorator (\<lambda>self.
       case web_driver self of
         None \<Rightarrow> (Inl AttributeError, self)
       | Some wd \<Rightarrow>
           let wd = wd\<lparr>cookies := Map.empty\<rparr>;
               self = self\<lparr>web_driver := Some wd\<rparr>
           in (Inr (), self\<lparr>web_driver := None\<rparr>))"

text \<open>
  \<^verbatim>\<open>RequestsScraper.retrieve_html\<close>. The result is the Python value returned: a string, or
  \<^verbatim>\<open>None\<close> when the body of the function ends without a \<^verbatim>\<open>return\<close>.
\<close>

definition RequestsScraper_retrieve_html ::
  "('k, 't) requests_lib \<Rightarrow> string \<Rightarrow> 't \<Rightarrow> bool \<Rightarrow> 'k \<Rightarrow> session scraper \<Rightarrow>
   (error + string option) \<times> session scraper" where
  "RequestsScraper_retrieve_html lib url wait_seconds delete_cookies_flag kwargs =
     check_web_driver_decorator (\<lambda>self.
       case web_driver self of
         None \<Rightarrow> (Inl AttributeError, self)
       | Some wd \<Rightarrow>
           (let wd = (if delete_cookies_flag then wd\<lparr>cookies := Map.empty\<rparr> else wd);
                self = self\<lparr>web_driver := Some wd\<rparr>
            in case time_sleep lib wait_seconds of
                Some e \<Rightarrow> (Inl e, self)
              | None \<Rightarrow>
                  (case session_get lib wd url kwargs of
                     (Inl e, wd) \<Rightarrow> (Inl e, self\<lparr>web_driver := Some wd\<rparr>)
                   | (Inr resp, wd) \<Rightarrow>
                       let self = self\<lparr>web_driver := Some wd\<rparr>
                       in if status_code resp = codes_ok
                          then
                            let cont = resp_text resp;
                                cont = (if cont = [] then [] else cont)
                            in if \<not> str_contains ''<html>'' cont \<and> \<not> str_contains ''<body'' cont
                               then (Inr (Some (''<html>'' @ [nl] @ ''  <body>'' @ [nl] @ cont @ [nl]
                                                @ ''  </body>'' @ [nl] @ ''</html>'')), self)
                               else (Inr (Some cont), self)
                          else
                            (case raise_for_status resp of
                               Some e \<Rightarrow> (Inl e, self)
                             | None \<Rightarrow> (Inr None, self)))))"

subsection \<open>\<^verbatim>\<open>SeleniumScraper\<close>\<close>

text \<open>
  The browser driver (\<^verbatim>\<open>selenium.webdriver\<close>) is a library: launching a browser with a
  list of arguments and navigating to a URL are parameters, next to \<^verbatim>\<open>time.sleep\<close>, and
  either may fail.
\<close>

datatype engine = Chrome | Firefox

record driver =
  driver_cookies :: "string \<rightharpoonup> string"
  page_source :: string

record 't selenium_lib = "'t time_module" +
  webdriver_new :: "engine \<Rightarrow> string list \<Rightarrow> error + driver"
  driver_get :: "driver \<Rightarrow> string \<Rightarrow> error + driver"

record selenium_scraper = "driver scraper" +
  options :: "string list"
  browser :: string
  browser_webdriver_cls :: engine

definition default_options :: "string list" where
  "default_options =
     [''--headless'',
      ''--incognito'',
      ''--no-sandbox'',
      ''--disable-dev-shm-usage'',
      ''--disable-extensions'',
      ''--disable-popup-blocking'',
      ''--disable-bundled-ppapi-flash'',
      ''--disable-plugins-discovery'',
      ''--disable-internal-flash'',
      ''--disable-client-side-phishing-detection'',
      ''--disable-component-extensions-with-background-pages'',
      ''--disable-default-apps'',
      ''--disable-extensions'',
      ''--disable-features=InterestFeedContentSuggestions'',
      ''--disable-features=Translate'',
      ''--hide-scrollbars'',
      ''--mute-audio'',
      ''--no-default-browser-check'',
      ''--no-first-run'',
      ''--ash-no-nudges'',
      ''--disable-search-engine-choice-screen'']"

definition SeleniumScraper_init ::
  "('r, 'w) random_module \<Rightarrow> 'w user_agents \<Rightarrow> 'r \<Rightarrow>
   string option \<Rightarrow> string option \<Rightarrow> bool \<Rightarrow> bool \<Rightarrow> string \<Rightarrow> string option \<Rightarrow>
   string \<Rightarrow> string list \<Rightarrow> (error + selenium_scraper) \<times> 'r" where
  "SeleniumScraper_init rnd cat r user_agent_arg screen_resolution_arg random_user_agent_flag_arg
       random_screen_resolution_flag_arg bs4_parser_arg proxy_arg browser_arg options_arg =
     (case BaseScraper_init rnd cat r user_agent_arg screen_resolution_arg
             random_user_agent_flag_arg random_screen_resolution_flag_arg bs4_parser_arg proxy_arg of
        (Inl e, r) \<Rightarrow> (Inl e, r)
      | (Inr base, r) \<Rightarrow>
          let opts = options_arg;
              opts = (case screen_resolution base of
                        None \<Rightarrow> opts
                      | Some res \<Rightarrow> if res \<noteq> [] then opts @ [''--window-size='' @ res] else opts);
              opts = (case user_agent base of
                        None \<Rightarrow> opts
                      | Some ua \<Rightarrow> if ua \<noteq> [] then opts @ [''--user-agent='' @ ua] else opts);
              opts = (case proxy base of
                        None \<Rightarrow> opts
                      | Some p \<Rightarrow> if p \<noteq> [] then opts @ [''--proxy-server='' @ p] else opts);
              b = str_strip (str_lower browser_arg);
              self = (\<lambda>cls. \<lparr>user_agent = user_agent base,
                             screen_resolution = screen_resolution base,
                             random_user_agent_flag = random_user_agent_flag base,
                             random_screen_resolution_flag = random_screen_resolution_flag base,
                             bs4_parser = bs4_parser base,
                             proxy = proxy base,
                             web_driver = web_driver base,
                             options = opts,
                             browser = b,
                             browser_webdriver_cls = cls\<rparr>)
          in if b = ''chrome'' then (Inr (self Chrome), r)
             else if b = ''firefox'' then (Inr (self Firefox), r)
             else (Inl ValueError, r))"

definition SeleniumScraper_start ::
  "'t selenium_lib \<Rightarrow> selenium_scraper \<Rightarrow> (error + unit) \<times> selenium_scraper" where
  "SeleniumScraper_start lib self =
     (case webdriver_new lib (browser_webdriver_cls self) (options self) of
        Inl e \<Rightarrow> (Inl e, self)
      | Inr wd \<Rightarrow> (Inr (), self\<lparr>web_driver := Some wd\<rparr>))"

definition SeleniumScraper_quit :: "selenium_scraper \<Rightarrow> (error + unit) \<times> selenium_scraper" where
  "SeleniumScraper_quit =
     check_web_driver_decorator (\<lambda>self.
       case web_driver self of
         None \<Rightarrow> (Inl AttributeError, self)
       | Some wd \<Rightarrow>
           let wd = wd\<lparr>driver_cookies := Map.empty\<rparr>;
               self = self\<lparr>web_driver := Some wd\<rparr>
           in (Inr (), self\<lparr>web_driver := None\<rparr>))"

definition SeleniumScraper_retrieve_html ::
  "bs4 \<Rightarrow> 't selenium_lib \<Rightarrow> string \<Rightarrow> 't \<Rightarrow> bool \<Rightarrow> selenium_scraper \<Rightarrow>
   (error + string option) \<times> selenium_scraper" where
  "SeleniumScraper_retrieve_html bs lib url wait_seconds delete_cookies_flag =
     check_web_driver_decorator (\<lambda>self.
       case time_sleep lib wait_seconds of
         Some e \<Rightarrow> (Inl e, self)
       | None \<Rightarrow>
           (case web_driver self of
              None \<Rightarrow> (Inl AttributeError, self)
            | Some wd \<Rightarrow>
                (let wd = (if delete_cookies_flag then wd\<lparr>driver_cookies := Map.empty\<rparr> else wd);
                     self = self\<lparr>web_driver := Some wd\<rparr>
                 in case driver_get lib wd url of
                      Inl e \<Rightarrow> (Inl e, self)
                    | Inr wd \<Rightarrow>
                        let self = self\<lparr>web_driver := Some wd\<rparr>
                        in (case format_html bs self (page_source wd) of
                              Inl e \<Rightarrow> (Inl e, self)
                            | Inr html \<Rightarrow> (Inr (Some html), self)))))"

subsection \<open>Sample documents, libraries and scrapers\<close>

text \<open>
  Concrete inputs on which the theorems below are run. A library fixture answers every call
  with one fixed value: the parser with the tree of one document, the network with one
  response, the browser with one page.
\<close>

definition example_text_doc :: soup where
  "example_text_doc =
     [Tag ''html'' Map.empty
        [Tag ''body'' Map.empty
           [Tag ''script'' Map.empty [NavigableString ''x''],
            NavigableString (''Hello'' @ [nl, nl, nl, nl, nl] @ ''World'')]]]"

definition example_links_doc :: soup where
  "example_links_doc =
     [Tag ''a'' [''href'' \<mapsto> ''https://a.com''] [NavigableString ''A''],
      Tag ''a'' [''href'' \<mapsto> ''/rel''] [NavigableString ''B''],
      Tag ''a'' [''href'' \<mapsto> ''http://b.com''] [NavigableString ''C'']]"

definition example_links_html :: string where
  \<open>example_links_html =
     ''<a href="https://a.com">A</a><a href="/rel">B</a><a href="http://b.com">C</a>''\<close>

definition no_body_doc :: soup where
  "no_body_doc = [Tag ''p'' Map.empty [NavigableString ''Hi'']]"

definition fixed_document_bs4 :: "soup \<Rightarrow> string \<Rightarrow> bs4" where
  "fixed_document_bs4 doc pretty =
     \<lparr>BeautifulSoup = (\<lambda>markup features. doc), prettify = (\<lambda>tree. pretty),
      BeautifulSoup_raises = (\<lambda>markup features. None)\<rparr>"

definition first_entry_random :: "(unit, nat) random_module" where
  "first_entry_random =
     \<lparr>choices = (\<lambda>r population weights. (case population of [] \<Rightarrow> [] | x # _ \<Rightarrow> x, r)),
      choice = (\<lambda>r population. (case population of [] \<Rightarrow> [] | x # _ \<Rightarrow> x, r))\<rparr>"

definition sample_user_agents :: "nat user_agents" where
  "sample_user_agents =
     \<lparr>MOST_COMMON_USER_AGENTS_STRINGS = [''Mozilla/5.0 (X11; Linux x86_64)''],
      MOST_COMMON_USER_AGENTS_WEIGHTS = [1]\<rparr>"

definition fresh_session :: session where
  "fresh_session = \<lparr>proxies = Map.empty, headers = Map.empty, cookies = Map.empty\<rparr>"

text \<open>
  A clock that counts nanoseconds in 64 bits: a negative wait is refused, and so is a
  wait of more than 9223372036854775808 nanoseconds.
\<close>

definition sample_time_sleep :: "real \<Rightarrow> error option" where
  "sample_time_sleep secs =
     (if secs < 0 then Some ValueError
      else if 9223372036854775808 < secs * 1000000000 then Some OverflowError
      else None)"

definition fixed_response_lib :: "response \<Rightarrow> (unit, real) requests_lib" where
  "fixed_response_lib resp =
     \<lparr>time_sleep = sample_time_sleep,
      requests_session = fresh_session,
      session_get = (\<lambda>wd url kwargs. (Inr resp, wd))\<rparr>"

definition blank_driver :: driver where
  "blank_driver = \<lparr>driver_cookies = Map.empty, page_source = []\<rparr>"

definition fixed_page_lib :: "string \<Rightarrow> real selenium_lib" where
  "fixed_page_lib src =
     \<lparr>time_sleep = sample_time_sleep,
      webdriver_new = (\<lambda>cls opts. Inr blank_driver),
      driver_get = (\<lambda>wd url. Inr (wd\<lparr>page_source := src\<rparr>))\<rparr>"

text \<open>A page source and the indented rendering the serialiser gives for it, one tag or string per line.\<close>

definition example_page_source :: string where
  "example_page_source = ''<p>Hi</p>''"

definition example_page_pretty :: string where
  "example_page_pretty = ''<p>'' @ [nl] @ '' Hi'' @ [nl] @ ''</p>'' @ [nl]"

definition sample_requests_scraper :: "session option \<Rightarrow> session scraper" where
  "sample_requests_scraper wd =
     \<lparr>user_agent = Some ''Mozilla/5.0 (X11; Linux x86_64)'',
      screen_resolution = Some ''1920,1080'',
      random_user_agent_flag = True,
      random_screen_resolution_flag = True,
      bs4_parser = ''html.parser'',
      proxy = None,
      web_driver = wd\<rparr>"

definition sample_selenium_scraper :: "driver option \<Rightarrow> selenium_scraper" where
  "sample_selenium_scraper wd =
     \<lparr>user_agent = Some ''Mozilla/5.0 (X11; Linux x86_64)'',
      screen_resolution = Some ''1920,1080'',
      random_user_agent_flag = True,
      random_screen_resolution_flag = True,
      bs4_parser = ''html.parser'',
      proxy = None,
      web_driver = wd,
      options = default_options
        @ [''--window-size=1920,1080'', ''--user-agent=Mozilla/5.0 (X11; Linux x86_64)''],
      browser = ''chrome'',
      browser_webdriver_cls = Chrome\<rparr>"

text \<open>A string that does not begin with a newline.\<close>

definition no_nl_head :: "string \<Rightarrow> bool" where
  "no_nl_head s = (case s of [] \<Rightarrow> True | c # _ \<Rightarrow> c \<noteq> nl)"

section \<open>Properties\<close>

subsection \<open>Runs of newlines\<close>

lemma takeWhile_run:
  "no_nl_head s \<Longrightarrow> takeWhile (\<lambda>x. x = nl) (replicate k nl @ s) = replicate k nl"
  by (induction k) (auto simp: no_nl_head_def split: list.splits)

lemma re_sub_other:
  "c \<noteq> nl \<Longrightarrow> 0 < lo \<Longrightarrow> re_sub_newlines lo hi r (c # cs) = c # re_sub_newlines lo hi r cs"
  by simp

lemma re_sub_short_run:
  "no_nl_head s \<Longrightarrow> k < lo \<Longrightarrow>
   re_sub_newlines lo hi r (replicate k nl @ s) = replicate k nl @ re_sub_newlines lo hi r s"
proof (induction k)
  case 0
  then show ?case by simp
next
  case (Suc k)
  have "length (takeWhile (\<lambda>x. x = nl) (nl # replicate k nl @ s)) = Suc k"
    using takeWhile_run [OF Suc.prems(1), of "Suc k"] by simp
  with Suc show ?case by (simp del: takeWhile.simps)
qed

lemma re_sub_open_run:
  assumes "no_nl_head s" "lo \<le> Suc k"
  shows "re_sub_newlines lo None r (replicate (Suc k) nl @ s) = r @ re_sub_newlines lo None r s"
proof -
  have "takeWhile (\<lambda>x. x = nl) (nl # replicate k nl @ s) = replicate (Suc k) nl"
    using takeWhile_run [OF assms(1), of "Suc k"] by simp
  with assms show ?thesis by (simp del: takeWhile.simps)
qed

lemma drop_min_run:
  "drop (min n h) (replicate n x @ s) = replicate (n - h) x @ s"
  by (simp add: min_def)

lemma re_sub_bounded_run:
  assumes "no_nl_head s" "lo \<le> Suc k" "0 < h"
  shows "re_sub_newlines lo (Some h) r (replicate (Suc k) nl @ s) =
         r @ re_sub_newlines lo (Some h) r (replicate (Suc k - h) nl @ s)"
proof -
  have "takeWhile (\<lambda>x. x = nl) (nl # replicate k nl @ s) = replicate (Suc k) nl"
    using takeWhile_run [OF assms(1), of "Suc k"] by simp
  moreover have "drop (min (Suc k) h) (nl # replicate k nl @ s) = replicate (Suc k - h) nl @ s"
    using drop_min_run [of "Suc k" h nl s] by simp
  ultimately show ?thesis using assms by (simp del: takeWhile.simps drop_Suc_Cons)
qed

lemma re_sub_head:
  "no_nl_head s \<Longrightarrow> 0 < lo \<Longrightarrow> no_nl_head (re_sub_newlines lo hi r s)"
  by (cases s) (auto simp: no_nl_head_def)


lemma process_text_Nil: "process_text [] = []"
  by (simp add: process_text_def)

lemma process_text_other: "c \<noteq> nl \<Longrightarrow> process_text (c # cs) = c # process_text cs"
  by (simp add: process_text_def)

lemma process_text_head: "no_nl_head s \<Longrightarrow> no_nl_head (process_text s)"
  by (simp add: process_text_def re_sub_head)

lemma collapse5_run:
  assumes "no_nl_head s"
  shows "re_sub_newlines 5 None [nl, nl, nl] (replicate k nl @ s) =
         replicate (if 5 \<le> k then 3 else k) nl @ re_sub_newlines 5 None [nl, nl, nl] s"
proof (cases "5 \<le> k")
  case True
  then obtain j where "k = Suc j" by (cases k) auto
  with True re_sub_open_run [OF assms, of 5 j "[nl, nl, nl]"] show ?thesis
    by (simp add: numeral_3_eq_3)
next
  case False
  with re_sub_short_run [OF assms, of k 5 None "[nl, nl, nl]"] show ?thesis by simp
qed

lemma collapse4_run:
  assumes "no_nl_head s" "k \<le> 4"
  shows "re_sub_newlines 4 (Some 4) [nl, nl] (replicate k nl @ s) =
         replicate (if k = 4 then 2 else k) nl @ re_sub_newlines 4 (Some 4) [nl, nl] s"
proof (cases "k = 4")
  case True
  with re_sub_bounded_run [OF assms(1), of 4 3 4 "[nl, nl]"] show ?thesis
    by (simp add: numeral_2_eq_2 eval_nat_numeral)
next
  case False
  with assms(2) re_sub_short_run [OF assms(1), of k 4 "Some 4" "[nl, nl]"] show ?thesis by simp
qed

lemma collapse23_run:
  assumes "no_nl_head s" "k \<le> 3"
  shows "re_sub_newlines 2 (Some 3) [nl] (replicate k nl @ s) =
         replicate (if 2 \<le> k then 1 else k) nl @ re_sub_newlines 2 (Some 3) [nl] s"
proof (cases "2 \<le> k")
  case True
  then obtain j where j: "k = Suc j" by (cases k) auto
  with True assms(2) re_sub_bounded_run [OF assms(1), of 2 j 3 "[nl]"] show ?thesis
    by simp
next
  case False
  with re_sub_short_run [OF assms(1), of k 2 "Some 3" "[nl]"] show ?thesis by simp
qed

lemma process_text_run:
  assumes "no_nl_head s"
  shows "process_text (replicate (Suc k) nl @ s) = nl # process_text s"
proof -
  let ?s1 = "re_sub_newlines 5 None [nl, nl, nl] s"
  let ?s2 = "re_sub_newlines 4 (Some 4) [nl, nl] ?s1"
  let ?s3 = "re_sub_newlines 2 (Some 3) [nl] ?s2"
  define k1 where "k1 = (if 5 \<le> Suc k then 3 else Suc k)"
  define k2 where "k2 = (if k1 = 4 then 2 else k1)"
  have b1: "k1 \<le> 4" "1 \<le> k1" by (simp_all add: k1_def)
  have b2: "k2 \<le> 3" "1 \<le> k2" using b1 by (simp_all add: k2_def)
  have h1: "no_nl_head ?s1" using assms by (simp add: re_sub_head)
  have h2: "no_nl_head ?s2" using h1 by (simp add: re_sub_head)
  have e1: "re_sub_newlines 5 None [nl, nl, nl] (replicate (Suc k) nl @ s) = replicate k1 nl @ ?s1"
    unfolding k1_def by (rule collapse5_run [OF assms])
  have e2: "re_sub_newlines 4 (Some 4) [nl, nl] (replicate k1 nl @ ?s1) = replicate k2 nl @ ?s2"
    unfolding k2_def by (rule collapse4_run [OF h1 b1(1)])
  have "re_sub_newlines 2 (Some 3) [nl] (replicate k2 nl @ ?s2) =
      replicate (if 2 \<le> k2 then 1 else k2) nl @ ?s3"
    by (rule collapse23_run [OF h2 b2(1)])
  moreover have "(if 2 \<le> k2 then 1 else k2) = 1" using b2 by simp
  ultimately have e3: "re_sub_newlines 2 (Some 3) [nl] (replicate k2 nl @ ?s2) = nl # ?s3"
    by simp
  show ?thesis
    unfolding process_text_def Let_def e1 e2 e3 ..
qed

lemma no_nl_head_dropWhile: "no_nl_head (dropWhile (\<lambda>x. x = nl) cs)"
  by (induction cs) (simp_all add: no_nl_head_def)

lemma run_cases:
  obtains "s = []" | c cs where "s = c # cs" "c \<noteq> nl"
  | k t where "s = replicate (Suc k) nl @ t" "no_nl_head t" "length t < length s"
proof (cases s)
  case Nil
  then show ?thesis using that(1) by simp
next
  case (Cons c cs)
  show ?thesis
  proof (cases "c = nl")
    case False
    with Cons that(2) show ?thesis by simp
  next
    case True
    let ?r = "takeWhile (\<lambda>x. x = nl) cs"
    let ?t = "dropWhile (\<lambda>x. x = nl) cs"
    have "?r = replicate (length ?r) nl"
      by (rule replicate_length_same [symmetric]) (auto dest: set_takeWhileD)
    then have "s = replicate (Suc (length ?r)) nl @ ?t"
      using Cons True takeWhile_dropWhile_id [of "\<lambda>x. x = nl" cs] by (metis append_Cons replicate_Suc)
    moreover have "no_nl_head ?t" by (rule no_nl_head_dropWhile)
    moreover have "length ?t < length s"
      using Cons length_dropWhile_le [of "\<lambda>x. x = nl" cs] by simp
    ultimately show ?thesis using that(3) by blast
  qed
qed

text \<open>
  C7: the whitespace-collapse step is idempotent. Applying the three rules of
  \<^verbatim>\<open>_process_text\<close> to a string that is already their output changes nothing.
\<close>

theorem process_text_idempotent: "process_text (process_text s) = process_text s"
proof (induction s rule: length_induct)
  case (1 s)
  show ?case
  proof (cases s rule: run_cases)
    case 1
    then show ?thesis by (simp add: process_text_Nil)
  next
    case (2 c cs)
    with 1 show ?thesis by (simp add: process_text_other)
  next
    case (3 k t)
    have s: "process_text s = nl # process_text t"
      unfolding 3(1) by (rule process_text_run [OF 3(2)])
    have "process_text (replicate (Suc 0) nl @ process_text t) = nl # process_text (process_text t)"
      by (rule process_text_run [OF process_text_head [OF 3(2)]])
    then have "process_text (nl # process_text t) = nl # process_text (process_text t)"
      by simp
    also have "\<dots> = nl # process_text t" using 1 3(3) by simp
    finally show ?thesis unfolding s .
  qed
qed

text \<open>
  C1: on the example of the specification the run of five newlines in the body text comes
  out of \<^verbatim>\<open>_process_text\<close>, and so out of \<^verbatim>\<open>extract_text\<close>, as one newline: the first rule
  leaves three, the second rule does not apply to three, and the third rule takes the
  three to one. The result is \<^verbatim>\<open>Hello\nWorld\<close>, not \<^verbatim>\<open>Hello\n\n\nWorld\<close>.
\<close>

theorem process_text_five_newlines_example:
  "process_text (''Hello'' @ [nl, nl, nl, nl, nl] @ ''World'') = ''Hello'' @ [nl] @ ''World''
   \<and> extract_text (fixed_document_bs4 example_text_doc pretty) self html_body
       = ''Hello'' @ [nl] @ ''World''
   \<and> ''Hello'' @ [nl] @ ''World'' \<noteq> ''Hello'' @ [nl, nl, nl] @ ''World''"
proof -
  have run: "process_text (''Hello'' @ [nl, nl, nl, nl, nl] @ ''World'') = ''Hello'' @ [nl] @ ''World''"
    by (simp add: process_text_def nl_def)
  have "extract_text (fixed_document_bs4 example_text_doc pretty) self html_body
      = process_text (''Hello'' @ [nl, nl, nl, nl, nl] @ ''World'')"
    by (simp add: extract_text_def fixed_document_bs4_def example_text_doc_def find_tag_def
        find_all_def)
  with run show ?thesis by simp
qed

subsection \<open>Strings and trees\<close>

lemma length_str_split: "length (str_split sep s) = Suc (count_list s sep)"
  by (induction s) (auto split: list.splits)

lemma str_contains_sublist: "str_contains sub s = sublist sub s"
  by (induction s) (auto simp: sublist_Cons_right)

lemma extract_links_loop_eq:
  "extract_links_loop tags result =
     result @ filter (\<lambda>link. prefix ''http'' link) (List.map_filter (\<lambda>tag. tag_get tag ''href'') tags)"
proof (induction tags arbitrary: result)
  case Nil
  then show ?case by (simp add: List.map_filter_simps)
next
  case (Cons tag tags)
  then show ?case
    by (cases "tag_get tag ''href''") (auto simp: List.map_filter_simps startswith_def)
qed

lemma find_tag_None:
  "find_tag name tree = None \<longleftrightarrow> (\<forall>n \<in> set (concat (map descendants tree)). \<not> is_tag_named name n)"
proof -
  have "find_tag name tree = None \<longleftrightarrow> find_all name tree = []"
    by (simp add: find_tag_def split: list.splits)
  also have "\<dots> \<longleftrightarrow> (\<forall>n \<in> set (concat (map descendants tree)). \<not> is_tag_named name n)"
    unfolding find_all_def filter_empty_conv ..
  finally show ?thesis .
qed

subsection \<open>Extraction\<close>

text \<open>
  C9: for a document whose parse tree has no body element, \<^verbatim>\<open>extract_text\<close> returns
  the empty string.
\<close>

theorem extract_text_without_body:
  "\<forall>n \<in> set (concat (map descendants (BeautifulSoup lib html_body (bs4_parser self)))).
      \<not> is_tag_named ''body'' n \<Longrightarrow>
   extract_text lib self html_body = []"
  using find_tag_None [of "''body''" "BeautifulSoup lib html_body (bs4_parser self)"]
  by (simp add: extract_text_def)

theorem extract_text_without_body_witness:
  "filter (is_tag_named ''body'')
     (concat (map descendants
        (BeautifulSoup (fixed_document_bs4 no_body_doc []) ''<p>Hi</p>''
           (bs4_parser (sample_requests_scraper None))))) = []
   \<and> extract_text (fixed_document_bs4 no_body_doc []) (sample_requests_scraper None) ''<p>Hi</p>'' = []"
proof -
  have h: "\<forall>n \<in> set (concat (map descendants
        (BeautifulSoup (fixed_document_bs4 no_body_doc []) ''<p>Hi</p>''
           (bs4_parser (sample_requests_scraper None))))).
      \<not> is_tag_named ''body'' n"
    by (simp add: fixed_document_bs4_def no_body_doc_def)
  show ?thesis
    using extract_text_without_body [OF h] by (simp add: fixed_document_bs4_def no_body_doc_def)
qed

text \<open>
  C5: \<^verbatim>\<open>extract_links\<close> returns the \<^verbatim>\<open>href\<close> values of the anchor elements of the document
  that begin with \<^verbatim>\<open>http\<close>, in document order and with repetitions kept; for the three
  anchors of the example it returns \<^verbatim>\<open>["https://a.com", "http://b.com"]\<close>.
\<close>

theorem extract_links_http_hrefs_in_order:
  "extract_links lib self html_body =
     filter (\<lambda>link. prefix ''http'' link)
       (List.map_filter (\<lambda>tag. tag_get tag ''href'')
          (find_all ''a'' (BeautifulSoup lib html_body (bs4_parser self))))
   \<and> (BeautifulSoup lib html_body (bs4_parser self) = example_links_doc \<longrightarrow>
        extract_links lib self html_body = [''https://a.com'', ''http://b.com''])"
proof -
  have eq: "extract_links lib self html_body =
     filter (\<lambda>link. prefix ''http'' link)
       (List.map_filter (\<lambda>tag. tag_get tag ''href'')
          (find_all ''a'' (BeautifulSoup lib html_body (bs4_parser self))))"
    by (simp add: extract_links_def extract_links_loop_eq)
  have "filter (\<lambda>link. prefix ''http'' link)
       (List.map_filter (\<lambda>tag. tag_get tag ''href'') (find_all ''a'' example_links_doc))
     = [''https://a.com'', ''http://b.com'']"
    by (simp add: find_all_def example_links_doc_def List.map_filter_simps)
  with eq show ?thesis by simp
qed

theorem extract_links_http_hrefs_in_order_witness:
  "BeautifulSoup (fixed_document_bs4 example_links_doc []) example_links_html
       (bs4_parser (sample_requests_scraper None)) = example_links_doc
   \<and> extract_links (fixed_document_bs4 example_links_doc []) (sample_requests_scraper None)
       example_links_html = [''https://a.com'', ''http://b.com'']"
  using extract_links_http_hrefs_in_order
    [of "fixed_document_bs4 example_links_doc []" "sample_requests_scraper None"
        example_links_html, THEN conjunct2]
  by (simp add: fixed_document_bs4_def)

subsection \<open>Construction\<close>

lemma BaseScraper_init_bad_proxy:
  "p \<noteq> [] \<Longrightarrow> count_list p CHR '':'' \<noteq> 1 \<Longrightarrow>
   BaseScraper_init rnd cat r ua res uaf resf parser (Some p) = (Inl ValueError, r)"
  by (simp add: BaseScraper_init_def length_str_split)

lemma BaseScraper_init_result:
  assumes "fst (BaseScraper_init rnd cat r ua res uaf resf parser prx) = Inr self"
  shows "user_agent self =
           (if uaf then Some (fst (choices rnd r (MOST_COMMON_USER_AGENTS_STRINGS cat)
                                     (MOST_COMMON_USER_AGENTS_WEIGHTS cat)))
            else ua)"
    and "screen_resolution self =
           (if resf
            then Some (fst (choice rnd
                   (if uaf then snd (choices rnd r (MOST_COMMON_USER_AGENTS_STRINGS cat)
                                       (MOST_COMMON_USER_AGENTS_WEIGHTS cat)) else r)
                   MOST_COMMON_SCREEN_RESOLUTIONS))
            else res)"
    and "web_driver self = None"
    and "proxy self = prx"
  using assms
  by (auto simp: BaseScraper_init_def Let_def refresh_user_agent_def
      refresh_screen_resolution_def split: if_splits prod.splits)

lemma SeleniumScraper_init_base:
  assumes "fst (SeleniumScraper_init rnd cat r ua res uaf resf parser prx b opts) = Inr self"
  shows "\<exists>base :: driver scraper.
           fst (BaseScraper_init rnd cat r ua res uaf resf parser prx) = Inr base
           \<and> user_agent self = user_agent base
           \<and> screen_resolution self = screen_resolution base
           \<and> web_driver self = web_driver base"
  using assms
  by (auto simp: SeleniumScraper_init_def Let_def split: prod.splits sum.splits if_splits)

text \<open>
  C8, as the code has it: the empty proxy string has no colon, and construction accepts it
  (an empty string counts as no proxy).
\<close>

theorem init_accepts_empty_proxy:
  "fst (BaseScraper_init first_entry_random sample_user_agents () None None False False
          ''html.parser'' (Some []) :: (error + session scraper) \<times> unit) \<noteq> Inl ValueError
   \<and> count_list [] CHR '':'' \<noteq> Suc 0"
  by (simp add: BaseScraper_init_def Let_def)

text \<open>
  C8, amended: for every non-empty proxy string in which the number of colons is not one,
  constructing a scraper of either strategy raises \<^verbatim>\<open>ValueError\<close>; nothing is sampled and no
  scraper object comes into being, so no session can be started.
\<close>

theorem init_rejects_bad_proxy:
  assumes "p \<noteq> []" "count_list p CHR '':'' \<noteq> 1"
  shows "BaseScraper_init rnd cat r ua res uaf resf parser (Some p) = (Inl ValueError, r)
    \<and> SeleniumScraper_init rnd cat r ua res uaf resf parser (Some p) browser_arg options_arg
        = (Inl ValueError, r)"
  using assms by (simp add: SeleniumScraper_init_def BaseScraper_init_bad_proxy)

theorem init_rejects_bad_proxy_witness:
  "(BaseScraper_init first_entry_random sample_user_agents () None None True True
      ''html.parser'' (Some ''badformat'') :: (error + session scraper) \<times> unit) = (Inl ValueError, ())
   \<and> SeleniumScraper_init first_entry_random sample_user_agents () None None True True
      ''html.parser'' (Some ''host:80:90'') ''chrome'' default_options = (Inl ValueError, ())"
proof -
  have a: "''badformat'' \<noteq> []" "count_list ''badformat'' CHR '':'' \<noteq> 1" by simp_all
  have b: "''host:80:90'' \<noteq> []" "count_list ''host:80:90'' CHR '':'' \<noteq> 1" by simp_all
  have "(BaseScraper_init first_entry_random sample_user_agents () None None True True
      ''html.parser'' (Some ''badformat'') :: (error + session scraper) \<times> unit) = (Inl ValueError, ())"
    by (rule init_rejects_bad_proxy [OF a, THEN conjunct1])
  moreover have "SeleniumScraper_init first_entry_random sample_user_agents () None None True True
      ''html.parser'' (Some ''host:80:90'') ''chrome'' default_options = (Inl ValueError, ())"
    by (rule init_rejects_bad_proxy [OF b, THEN conjunct2])
  ultimately show ?thesis by (rule conjI)
qed

text \<open>
  C10: after construction the user agent is the draw from the catalog when
  \<^verbatim>\<open>random_user_agent_flag\<close> is true (its default), whatever explicit value was passed, and
  is the explicit value when the flag is false; the same holds for the screen resolution
  and its flag, and for both strategies.
\<close>

theorem init_random_flag_overwrites_identity:
  "(fst (BaseScraper_init rnd cat r ua res uaf resf parser prx) = Inr self \<longrightarrow>
      user_agent self =
        (if uaf then Some (fst (choices rnd r (MOST_COMMON_USER_AGENTS_STRINGS cat)
                                  (MOST_COMMON_USER_AGENTS_WEIGHTS cat)))
         else ua)
      \<and> screen_resolution self =
        (if resf
         then Some (fst (choice rnd
                (if uaf then snd (choices rnd r (MOST_COMMON_USER_AGENTS_STRINGS cat)
                                    (MOST_COMMON_USER_AGENTS_WEIGHTS cat)) else r)
                MOST_COMMON_SCREEN_RESOLUTIONS))
         else res))
   \<and> (fst (SeleniumScraper_init rnd cat r ua res uaf resf parser prx b opts) = Inr sself \<longrightarrow>
      user_agent sself =
        (if uaf then Some (fst (choices rnd r (MOST_COMMON_USER_AGENTS_STRINGS cat)
                                  (MOST_COMMON_USER_AGENTS_WEIGHTS cat)))
         else ua)
      \<and> screen_resolution sself =
        (if resf
         then Some (fst (choice rnd
                (if uaf then snd (choices rnd r (MOST_COMMON_USER_AGENTS_STRINGS cat)
                                    (MOST_COMMON_USER_AGENTS_WEIGHTS cat)) else r)
                MOST_COMMON_SCREEN_RESOLUTIONS))
         else res))"
proof (intro conjI impI)
  assume a: "fst (BaseScraper_init rnd cat r ua res uaf resf parser prx) = Inr self"
  show "user_agent self =
        (if uaf then Some (fst (choices rnd r (MOST_COMMON_USER_AGENTS_STRINGS cat)
                                  (MOST_COMMON_USER_AGENTS_WEIGHTS cat)))
         else ua)"
    by (rule BaseScraper_init_result(1) [OF a])
  show "screen_resolution self =
        (if resf
         then Some (fst (choice rnd
                (if uaf then snd (choices rnd r (MOST_COMMON_USER_AGENTS_STRINGS cat)
                                    (MOST_COMMON_USER_AGENTS_WEIGHTS cat)) else r)
                MOST_COMMON_SCREEN_RESOLUTIONS))
         else res)"
    by (rule BaseScraper_init_result(2) [OF a])
next
  assume c: "fst (SeleniumScraper_init rnd cat r ua res uaf resf parser prx b opts) = Inr sself"
  obtain base :: "driver scraper" where
    base: "fst (BaseScraper_init rnd cat r ua res uaf resf parser prx) = Inr base"
      "user_agent sself = user_agent base" "screen_resolution sself = screen_resolution base"
    using SeleniumScraper_init_base [OF c] by blast
  show "user_agent sself =
        (if uaf then Some (fst (choices rnd r (MOST_COMMON_USER_AGENTS_STRINGS cat)
                                  (MOST_COMMON_USER_AGENTS_WEIGHTS cat)))
         else ua)"
    using BaseScraper_init_result(1) [OF base(1)] base(2) by simp
  show "screen_resolution sself =
        (if resf
         then Some (fst (choice rnd
                (if uaf then snd (choices rnd r (MOST_COMMON_USER_AGENTS_STRINGS cat)
                                    (MOST_COMMON_USER_AGENTS_WEIGHTS cat)) else r)
                MOST_COMMON_SCREEN_RESOLUTIONS))
         else res)"
    using BaseScraper_init_result(2) [OF base(1)] base(3) by simp
qed

theorem init_random_flag_overwrites_identity_witness:
  "\<exists>(self :: session scraper) sself.
      fst (BaseScraper_init first_entry_random sample_user_agents ()
             (Some ''MyAgent/1.0'') (Some ''800,600'') True False ''html.parser'' None) = Inr self
    \<and> fst (SeleniumScraper_init first_entry_random sample_user_agents ()
             (Some ''MyAgent/1.0'') (Some ''800,600'') True False ''html.parser'' None
             ''chrome'' default_options) = Inr sself
    \<and> user_agent self = Some ''Mozilla/5.0 (X11; Linux x86_64)''
    \<and> screen_resolution self = Some ''800,600''
    \<and> user_agent sself = Some ''Mozilla/5.0 (X11; Linux x86_64)''
    \<and> screen_resolution sself = Some ''800,600''"
proof -
  obtain self :: "session scraper" where
    a: "fst (BaseScraper_init first_entry_random sample_user_agents ()
             (Some ''MyAgent/1.0'') (Some ''800,600'') True False ''html.parser'' None) = Inr self"
    by (simp add: BaseScraper_init_def Let_def refresh_user_agent_def first_entry_random_def
        sample_user_agents_def)
  obtain sself where
    b: "fst (SeleniumScraper_init first_entry_random sample_user_agents ()
             (Some ''MyAgent/1.0'') (Some ''800,600'') True False ''html.parser'' None
             ''chrome'' default_options) = Inr sself"
    by (simp add: SeleniumScraper_init_def BaseScraper_init_def Let_def refresh_user_agent_def
        first_entry_random_def sample_user_agents_def str_strip_def str_lower_def char_lower_def
        is_space_def)
  show ?thesis
    using init_random_flag_overwrites_identity [THEN conjunct1, THEN mp, OF a]
      init_random_flag_overwrites_identity [THEN conjunct2, THEN mp, OF b] a b
    by (simp add: first_entry_random_def sample_user_agents_def)
qed

subsection \<open>Sessions\<close>

lemma guard_None:
  "web_driver self = None \<Longrightarrow> check_web_driver_decorator method self = (Inl AttributeError, self)"
  by (simp add: check_web_driver_decorator_def)

text \<open>
  C4: on a scraper of either strategy whose \<^verbatim>\<open>web_driver\<close> is \<^verbatim>\<open>None\<close>, \<^verbatim>\<open>retrieve_html\<close> and
  \<^verbatim>\<open>quit\<close> raise \<^verbatim>\<open>AttributeError\<close> and leave the scraper as it is. The field is \<^verbatim>\<open>None\<close>
  after construction, that is before \<^verbatim>\<open>start()\<close>, and again after a \<^verbatim>\<open>quit()\<close> that
  has completed.
\<close>

theorem methods_fail_without_session:
  "(web_driver rs = None \<longrightarrow>
      RequestsScraper_retrieve_html rl url w d k rs = (Inl AttributeError, rs)
      \<and> RequestsScraper_quit rs = (Inl AttributeError, rs))
   \<and> (web_driver ss = None \<longrightarrow>
      SeleniumScraper_retrieve_html bs sl url w d ss = (Inl AttributeError, ss)
      \<and> SeleniumScraper_quit ss = (Inl AttributeError, ss))
   \<and> (fst (BaseScraper_init rnd cat r ua res uaf resf parser prx) = Inr (rs0 :: session scraper) \<longrightarrow>
      web_driver rs0 = None)
   \<and> (fst (SeleniumScraper_init rnd cat r ua res uaf resf parser prx b opts) = Inr ss0 \<longrightarrow>
      web_driver ss0 = None)
   \<and> (fst (RequestsScraper_quit rs1) = Inr u \<longrightarrow> web_driver (snd (RequestsScraper_quit rs1)) = None)
   \<and> (fst (SeleniumScraper_quit ss1) = Inr u \<longrightarrow> web_driver (snd (SeleniumScraper_quit ss1)) = None)"
proof (intro conjI impI)
  assume "fst (SeleniumScraper_init rnd cat r ua res uaf resf parser prx b opts) = Inr ss0"
  from SeleniumScraper_init_base [OF this] show "web_driver ss0 = None"
    using BaseScraper_init_result(3) by metis
next
  assume "fst (RequestsScraper_quit rs1) = Inr u"
  then show "web_driver (snd (RequestsScraper_quit rs1)) = None"
    by (cases "web_driver rs1")
      (simp_all add: RequestsScraper_quit_def check_web_driver_decorator_def Let_def)
next
  assume "fst (SeleniumScraper_quit ss1) = Inr u"
  then show "web_driver (snd (SeleniumScraper_quit ss1)) = None"
    by (cases "web_driver ss1")
      (simp_all add: SeleniumScraper_quit_def check_web_driver_decorator_def Let_def)
qed (simp_all add: RequestsScraper_retrieve_html_def RequestsScraper_quit_def
      SeleniumScraper_retrieve_html_def SeleniumScraper_quit_def guard_None
      BaseScraper_init_result(3))


theorem methods_fail_without_session_witness:
  "fst (BaseScraper_init first_entry_random sample_user_agents () None None True True
          ''html.parser'' None) = Inr (sample_requests_scraper None)
   \<and> fst (SeleniumScraper_init first_entry_random sample_user_agents () None None True True
          ''html.parser'' None ''chrome'' default_options) = Inr (sample_selenium_scraper None)
   \<and> RequestsScraper_retrieve_html (fixed_response_lib \<lparr>status_code = 200, resp_text = ''<html></html>''\<rparr>)
      ''http://example.com/'' 1 False () (sample_requests_scraper None)
     = (Inl AttributeError, sample_requests_scraper None)
   \<and> RequestsScraper_quit (sample_requests_scraper None)
     = (Inl AttributeError, sample_requests_scraper None)
   \<and> SeleniumScraper_retrieve_html (fixed_document_bs4 no_body_doc []) (fixed_page_lib ''<p>Hi</p>'')
      ''http://example.com/'' 1 False (sample_selenium_scraper None)
     = (Inl AttributeError, sample_selenium_scraper None)
   \<and> SeleniumScraper_quit (sample_selenium_scraper None)
     = (Inl AttributeError, sample_selenium_scraper None)
   \<and> fst (RequestsScraper_quit (sample_requests_scraper (Some fresh_session))) = Inr ()
   \<and> web_driver (snd (RequestsScraper_quit (sample_requests_scraper (Some fresh_session)))) = None
   \<and> fst (SeleniumScraper_quit (sample_selenium_scraper (Some blank_driver))) = Inr ()
   \<and> web_driver (snd (SeleniumScraper_quit (sample_selenium_scraper (Some blank_driver)))) = None"
proof -
  have i: "fst (BaseScraper_init first_entry_random sample_user_agents () None None True True
          ''html.parser'' None) = Inr (sample_requests_scraper None)"
    by (simp add: BaseScraper_init_def Let_def refresh_user_agent_def refresh_screen_resolution_def
        first_entry_random_def sample_user_agents_def MOST_COMMON_SCREEN_RESOLUTIONS_def
        sample_requests_scraper_def)
  have j: "fst (SeleniumScraper_init first_entry_random sample_user_agents () None None True True
          ''html.parser'' None ''chrome'' default_options) = Inr (sample_selenium_scraper None)"
    by (simp add: SeleniumScraper_init_def BaseScraper_init_def Let_def refresh_user_agent_def
        refresh_screen_resolution_def first_entry_random_def sample_user_agents_def
        MOST_COMMON_SCREEN_RESOLUTIONS_def sample_selenium_scraper_def str_strip_def
        str_lower_def char_lower_def is_space_def)
  have n: "web_driver (sample_requests_scraper None) = None"
    "web_driver (sample_selenium_scraper None) = None"
    by (simp_all add: sample_requests_scraper_def sample_selenium_scraper_def)
  have q: "fst (RequestsScraper_quit (sample_requests_scraper (Some fresh_session))) = Inr ()"
    "fst (SeleniumScraper_quit (sample_selenium_scraper (Some blank_driver))) = Inr ()"
    by (simp_all add: RequestsScraper_quit_def SeleniumScraper_quit_def
        check_web_driver_decorator_def sample_requests_scraper_def sample_selenium_scraper_def)
  show ?thesis
    using i j n q methods_fail_without_session
      [where rs = "sample_requests_scraper None" and ss = "sample_selenium_scraper None"
        and ?rs1.0 = "sample_requests_scraper (Some fresh_session)"
        and ?ss1.0 = "sample_selenium_scraper (Some blank_driver)" and u = "()"
        and rl = "fixed_response_lib \<lparr>status_code = 200, resp_text = ''<html></html>''\<rparr>"
        and url = "''http://example.com/''" and w = 1 and d = False and k = "()"
        and bs = "fixed_document_bs4 no_body_doc []" and sl = "fixed_page_lib ''<p>Hi</p>''"
        and rnd = first_entry_random and cat = sample_user_agents and r = "()"
        and ua = None and res = None and uaf = True and resf = True
        and parser = "''html.parser''" and prx = None and b = "''chrome''"
        and opts = default_options and ?rs0.0 = "sample_requests_scraper None"
        and ?ss0.0 = "sample_selenium_scraper None"]
    by simp
qed

subsection \<open>Acquisition\<close>

lemma requests_retrieve_html_ok:
  assumes "web_driver self = Some wd" "time_sleep lib wait_seconds = None"
    and "session_get lib (if delete_cookies_flag then wd\<lparr>cookies := Map.empty\<rparr> else wd) url kwargs
          = (Inr resp, wd')"
    and "status_code resp = 200"
  shows "fst (RequestsScraper_retrieve_html lib url wait_seconds delete_cookies_flag kwargs self) =
     Inr (Some (if \<not> str_contains ''<html>'' (resp_text resp) \<and> \<not> str_contains ''<body'' (resp_text resp)
                then ''<html>'' @ [nl] @ ''  <body>'' @ [nl] @ resp_text resp @ [nl]
                       @ ''  </body>'' @ [nl] @ ''</html>''
                else resp_text resp))"
  using assms
  by (simp add: RequestsScraper_retrieve_html_def check_web_driver_decorator_def
      codes_ok_def Let_def)

text \<open>
  C6, as the code has it: a response of status 201 is a success, and for it
  \<^verbatim>\<open>retrieve_html\<close> of a started Direct-Fetch scraper returns \<^verbatim>\<open>None\<close>, neither the body
  in the envelope (for a body without \<^verbatim>\<open><html>\<close> and \<^verbatim>\<open><body\<close>) nor the body itself (for
  a body with \<^verbatim>\<open><html>\<close>).
\<close>

theorem retrieve_html_status_201_no_envelope:
  "fst (RequestsScraper_retrieve_html
          (fixed_response_lib \<lparr>status_code = 201, resp_text = ''plain text''\<rparr>)
          ''http://example.com/'' 1 False () (sample_requests_scraper (Some fresh_session)))
     = Inr None
   \<and> fst (RequestsScraper_retrieve_html
          (fixed_response_lib \<lparr>status_code = 201, resp_text = ''<html></html>''\<rparr>)
          ''http://example.com/'' 1 False () (sample_requests_scraper (Some fresh_session)))
     = Inr None"
  by (simp add: RequestsScraper_retrieve_html_def check_web_driver_decorator_def
      sample_time_sleep_def codes_ok_def Let_def fixed_response_lib_def
      sample_requests_scraper_def raise_for_status_def)

text \<open>
  C6, amended: for a started Direct-Fetch scraper, a wait that \<^verbatim>\<open>time.sleep\<close> accepts and a
  response of status 200, \<^verbatim>\<open>retrieve_html\<close> returns the body inside the envelope
  \<^verbatim>\<open><html>\n  <body>\n...\n  </body>\n</html>\<close> when the body contains neither \<^verbatim>\<open><html>\<close>
  nor \<^verbatim>\<open><body\<close> (the empty body among them), and returns the body unchanged when it
  contains one of the two.
\<close>

theorem retrieve_html_wraps_bare_body:
  assumes "web_driver self = Some wd" "time_sleep lib wait_seconds = None"
    and "session_get lib (if delete_cookies_flag then wd\<lparr>cookies := Map.empty\<rparr> else wd) url kwargs
          = (Inr resp, wd')"
    and "status_code resp = 200"
  shows "fst (RequestsScraper_retrieve_html lib url wait_seconds delete_cookies_flag kwargs self) =
     Inr (Some (if \<not> sublist ''<html>'' (resp_text resp) \<and> \<not> sublist ''<body'' (resp_text resp)
                then ''<html>'' @ [nl] @ ''  <body>'' @ [nl] @ resp_text resp @ [nl]
                       @ ''  </body>'' @ [nl] @ ''</html>''
                else resp_text resp))"
  using requests_retrieve_html_ok [OF assms] by (simp only: str_contains_sublist)

theorem retrieve_html_wraps_bare_body_witness:
  "fst (RequestsScraper_retrieve_html
          (fixed_response_lib \<lparr>status_code = 200, resp_text = ''plain text''\<rparr>)
          ''http://example.com/'' 1 False () (sample_requests_scraper (Some fresh_session)))
     = Inr (Some (''<html>'' @ [nl] @ ''  <body>'' @ [nl] @ ''plain text'' @ [nl]
                    @ ''  </body>'' @ [nl] @ ''</html>''))
   \<and> fst (RequestsScraper_retrieve_html
          (fixed_response_lib \<lparr>status_code = 200, resp_text = ''<body class=x>Hi</body>''\<rparr>)
          ''http://example.com/'' 1 False () (sample_requests_scraper (Some fresh_session)))
     = Inr (Some ''<body class=x>Hi</body>'')"
proof -
  have w: "web_driver (sample_requests_scraper (Some fresh_session)) = Some fresh_session"
    by (simp add: sample_requests_scraper_def)
  have t: "time_sleep (fixed_response_lib resp) (1::real) = None" for resp
    by (simp add: fixed_response_lib_def sample_time_sleep_def)
  have g: "session_get (fixed_response_lib resp) (if False then fresh_session\<lparr>cookies := Map.empty\<rparr> else fresh_session)
             ''http://example.com/'' () = (Inr resp, fresh_session)" for resp
    by (simp add: fixed_response_lib_def)
  have s1: "status_code \<lparr>status_code = 200, resp_text = ''plain text''\<rparr> = 200" by simp
  have s2: "status_code \<lparr>status_code = 200, resp_text = ''<body class=x>Hi</body>''\<rparr> = 200" by simp
  have n1: "\<not> str_contains ''<html>'' ''plain text''" "\<not> str_contains ''<body'' ''plain text''"
    by simp_all
  have n2: "str_contains ''<body'' ''<body class=x>Hi</body>''" by simp
  show ?thesis
    using retrieve_html_wraps_bare_body [OF w t g s1] retrieve_html_wraps_bare_body [OF w t g s2]
      n1 n2
    by (simp add: str_contains_sublist)
qed

text \<open>
  C2: for a response of status 204 (a success status other than 200) and for one of status
  304, \<^verbatim>\<open>retrieve_html\<close> of a started Direct-Fetch scraper raises nothing and returns
  \<^verbatim>\<open>None\<close>: the branch for a status other than 200 relies on \<^verbatim>\<open>raise_for_status\<close>, which
  raises from 400 on only.
\<close>

theorem retrieve_html_returns_None_outside_200_and_errors:
  "fst (RequestsScraper_retrieve_html
          (fixed_response_lib \<lparr>status_code = 204, resp_text = []\<rparr>)
          ''http://example.com/'' 1 False () (sample_requests_scraper (Some fresh_session)))
     = Inr None
   \<and> fst (RequestsScraper_retrieve_html
          (fixed_response_lib \<lparr>status_code = 304, resp_text = []\<rparr>)
          ''http://example.com/'' 1 False () (sample_requests_scraper (Some fresh_session)))
     = Inr None"
  by (simp add: RequestsScraper_retrieve_html_def check_web_driver_decorator_def
      sample_time_sleep_def codes_ok_def Let_def fixed_response_lib_def
      sample_requests_scraper_def raise_for_status_def)

text \<open>
  C3, as the code has it: what \<^verbatim>\<open>retrieve_html\<close> of a started Rendered-Fetch scraper
  returns for the page source \<^verbatim>\<open><p>Hi</p>\<close> is not that page source.
\<close>

theorem selenium_retrieve_html_not_raw:
  "fst (SeleniumScraper_retrieve_html
          (fixed_document_bs4 [Tag ''p'' Map.empty [NavigableString ''Hi'']] example_page_pretty)
          (fixed_page_lib example_page_source) ''http://example.com/'' 1 False
          (sample_selenium_scraper (Some blank_driver)))
     \<noteq> Inr (Some example_page_source)"
  by (simp add: SeleniumScraper_retrieve_html_def check_web_driver_decorator_def
      sample_time_sleep_def sample_selenium_scraper_def fixed_page_lib_def
      fixed_document_bs4_def format_html_def example_page_source_def example_page_pretty_def
      Let_def)

text \<open>
  C3, amended: for a started Rendered-Fetch scraper, when \<^verbatim>\<open>time.sleep\<close> accepts the wait,
  the navigation succeeds and the HTML library builds a tree for the page source with
  the parser of the scraper, \<^verbatim>\<open>retrieve_html\<close> returns \<^verbatim>\<open>format\<close> of the browser's page
  source: the \<^verbatim>\<open>prettify\<close> of the tree that \<^verbatim>\<open>BeautifulSoup\<close> builds for the page source.
\<close>

theorem selenium_retrieve_html_formats_page_source:
  assumes "web_driver self = Some wd" "time_sleep lib wait_seconds = None"
    and "driver_get lib (if delete_cookies_flag then wd\<lparr>driver_cookies := Map.empty\<rparr> else wd) url
          = Inr wd'"
    and "BeautifulSoup_raises bs (page_source wd') (bs4_parser self) = None"
  shows "fst (SeleniumScraper_retrieve_html bs lib url wait_seconds delete_cookies_flag self) =
     Inr (Some (prettify bs (BeautifulSoup bs (page_source wd') (bs4_parser self))))"
  using assms
  by (simp add: SeleniumScraper_retrieve_html_def check_web_driver_decorator_def
      format_html_def Let_def)

theorem selenium_retrieve_html_formats_page_source_witness:
  "fst (SeleniumScraper_retrieve_html
          (fixed_document_bs4 [Tag ''p'' Map.empty [NavigableString ''Hi'']] example_page_pretty)
          (fixed_page_lib example_page_source) ''http://example.com/'' 1 False
          (sample_selenium_scraper (Some blank_driver)))
     = Inr (Some example_page_pretty)"
proof -
  have w: "web_driver (sample_selenium_scraper (Some blank_driver)) = Some blank_driver"
    by (simp add: sample_selenium_scraper_def)
  have t: "time_sleep (fixed_page_lib example_page_source) (1::real) = None"
    by (simp add: fixed_page_lib_def sample_time_sleep_def)
  have g: "driver_get (fixed_page_lib example_page_source)
             (if False then blank_driver\<lparr>driver_cookies := Map.empty\<rparr> else blank_driver)
             ''http://example.com/'' = Inr (blank_driver\<lparr>page_source := example_page_source\<rparr>)"
    by (simp add: fixed_page_lib_def)
  have b: "BeautifulSoup_raises
             (fixed_document_bs4 [Tag ''p'' Map.empty [NavigableString ''Hi'']] example_page_pretty)
             (page_source (blank_driver\<lparr>page_source := example_page_source\<rparr>))
             (bs4_parser (sample_selenium_scraper (Some blank_driver))) = None"
    by (simp add: fixed_document_bs4_def)
  show ?thesis
    using selenium_retrieve_html_formats_page_source [OF w t g b]
    by (simp add: fixed_document_bs4_def)
qed

end
